theory Spec2Isabelle
  imports Complex_Main "HOL-Library.Multiset"
begin

section \<open>Python primitives used by the sources\<close>

text \<open>
  The exceptions that the modelled code can raise.  A computation that may raise returns
  a value of \<open>py_error + 'a\<close>, \<open>Inl\<close> carrying the exception.
\<close>

datatype py_error = ValueError | IndexError | OverflowError | ZeroDivisionError

text \<open>
  Arguments of a constructor are arbitrary Python values.  Only the distinction made by
  \<open>isinstance(x, int)\<close> matters to the code: \<open>bool\<close> is a subclass of \<open>int\<close>, with
  \<open>True == 1\<close> and \<open>False == 0\<close>; floats, strings and \<open>None\<close> are not ints.
\<close>

datatype pyval = PyInt int | PyBool bool | PyFloat real | PyStr string | PyNone

fun isinstance_int :: "pyval \<Rightarrow> bool" where
  "isinstance_int (PyInt _) = True"
| "isinstance_int (PyBool _) = True"
| "isinstance_int _ = False"

fun int_of_pyval :: "pyval \<Rightarrow> int" where
  "int_of_pyval (PyInt i) = i"
| "int_of_pyval (PyBool b) = (if b then 1 else 0)"
| "int_of_pyval _ = 0"

text \<open>
  Floats are modelled by reals: rounding, infinities and NaN are left out, the exceptions
  of float arithmetic are kept.  True division of a float and an int converts the int to
  a float first, which raises \<open>OverflowError\<close> when the int rounds to \<open>2 ^ 1024\<close> or beyond,
  that is from \<open>2 ^ 1024 - 2 ^ 970\<close> on in absolute value; a zero divisor then raises
  \<open>ZeroDivisionError\<close>.
\<close>

definition int_too_large_for_float :: "int \<Rightarrow> bool" where
  "int_too_large_for_float n = (2 ^ 1024 - 2 ^ 970 \<le> \<bar>n\<bar>)"

definition float_truediv_int :: "real \<Rightarrow> int \<Rightarrow> py_error + real" where
  "float_truediv_int x n =
     (if int_too_large_for_float n then Inl OverflowError
      else if n = 0 then Inl ZeroDivisionError
      else Inr (x / real_of_int n))"

definition int_truediv_float :: "int \<Rightarrow> real \<Rightarrow> py_error + real" where
  "int_truediv_float n x =
     (if int_too_large_for_float n then Inl OverflowError
      else if x = 0 then Inl ZeroDivisionError
      else Inr (real_of_int n / x))"

text \<open>
  \<open>range(lo, hi, step)\<close>: the arithmetic progression from \<open>lo\<close>, as long as it stays
  before \<open>hi\<close> (after it, for a negative step); a zero step raises \<open>ValueError\<close>.  The
  number of elements is computed as CPython does.
\<close>

definition py_range_len :: "int \<Rightarrow> int \<Rightarrow> int \<Rightarrow> nat" where
  "py_range_len lo hi step =
     (if 0 < step then (if lo < hi then nat ((hi - lo - 1) div step + 1) else 0)
      else if step < 0 then (if hi < lo then nat ((lo - hi - 1) div (- step) + 1) else 0)
      else 0)"

definition py_range :: "int \<Rightarrow> int \<Rightarrow> int \<Rightarrow> py_error + int list" where
  "py_range lo hi step =
     (if step = 0 then Inl ValueError
      else Inr (map (\<lambda>k. lo + int k * step) [0..<py_range_len lo hi step]))"

text \<open>
  \<open>slice(start, stop, step).indices(n)\<close>: missing bounds take their defaults, negative
  bounds count from the end, and every bound is clipped to the sequence.
\<close>

definition py_slice_indices ::
  "int option \<Rightarrow> int option \<Rightarrow> int \<Rightarrow> int \<Rightarrow> int \<times> int" where
  "py_slice_indices start stop step n =
     (let lower = (if step < 0 then - 1 else 0);
          upper = (if step < 0 then n - 1 else n);
          adjust = (\<lambda>v. if v < 0 then (if v + n < lower then lower else v + n)
                         else (if upper \<le> v then upper else v));
          start' = (case start of None \<Rightarrow> (if step < 0 then upper else lower)
                    | Some v \<Rightarrow> adjust v);
          stop' = (case stop of None \<Rightarrow> (if step < 0 then lower else upper)
                   | Some v \<Rightarrow> adjust v)
      in (start', stop'))"

text \<open>\<open>xs[start:stop:step]\<close> on a sequence; a missing step is 1.\<close>

definition py_slice ::
  "'a list \<Rightarrow> int option \<Rightarrow> int option \<Rightarrow> int option \<Rightarrow> py_error + 'a list" where
  "py_slice xs start stop step =
     (let st = (case step of None \<Rightarrow> 1 | Some s \<Rightarrow> s);
          (lo, hi) = py_slice_indices start stop st (int (length xs))
      in case py_range lo hi st of
           Inl e \<Rightarrow> Inl e
         | Inr idx \<Rightarrow> Inr (map (\<lambda>i. xs ! nat i) idx))"

section \<open>The recording object model consumed by the preprocessor\<close>

text \<open>
  A recording segment holds a two-dimensional array of samples, frames by channels, an
  optional vector of timestamps and an optional start time.
\<close>

record 'a recording_segment =
  traces :: "'a list list"
  num_channels :: nat
  time_vector :: "real list option"
  t_start :: "real option"

definition seg_get_num_samples :: "'a recording_segment \<Rightarrow> int" where
  "seg_get_num_samples seg = int (length (traces seg))"

text \<open>
  Selecting columns \<open>a[:, channel_indices]\<close> of a frames-by-channels array: \<open>None\<close> keeps
  every channel; a list of indices is checked against the channel axis (an index out of
  bounds raises \<open>IndexError\<close>), negative indices counting from the end.
\<close>

definition channels_valid :: "nat \<Rightarrow> int list option \<Rightarrow> bool" where
  "channels_valid nch channel_indices =
     (case channel_indices of
        None \<Rightarrow> True
      | Some cs \<Rightarrow> list_all (\<lambda>c. - int nch \<le> c \<and> c < int nch) cs)"

definition select_frame :: "nat \<Rightarrow> int list option \<Rightarrow> 'a list \<Rightarrow> 'a list" where
  "select_frame nch channel_indices fr =
     (case channel_indices of
        None \<Rightarrow> fr
      | Some cs \<Rightarrow> map (\<lambda>c. fr ! nat (if c < 0 then c + int nch else c)) cs)"

definition select_channels ::
  "nat \<Rightarrow> int list option \<Rightarrow> 'a list list \<Rightarrow> py_error + 'a list list" where
  "select_channels nch channel_indices frames =
     (if channels_valid nch channel_indices
      then Inr (map (select_frame nch channel_indices) frames)
      else Inl IndexError)"

text \<open>
  Modelled from the spec: the parent segment's \<open>get_traces\<close> is not part of the sources
  at hand (it belongs to the recording object model); the spec gives it as
  \<open>get_traces(start, end, channel_indices) \<rightarrow> array[frames, channels]\<close>.  It is taken
  to be the array-backed segment, which slices its array:
  \<open>traces[start_frame:end_frame][:, channel_indices]\<close>.
\<close>

definition seg_get_traces ::
  "'a recording_segment \<Rightarrow> int \<Rightarrow> int \<Rightarrow> int list option \<Rightarrow> py_error + 'a list list" where
  "seg_get_traces seg start_frame end_frame channel_indices =
     (case py_slice (traces seg) (Some start_frame) (Some end_frame) None of
        Inl e \<Rightarrow> Inl e
      | Inr frames \<Rightarrow> select_channels (num_channels seg) channel_indices frames)"

record 'a recording =
  sampling_frequency :: real
  dtype :: "'a \<Rightarrow> 'a"
  recording_segments :: "'a recording_segment list"

section \<open>decimate.py\<close>

text \<open>
  \<open>DecimateRecordingSegment\<close>: the fields set by its constructor.  The dtype is
  represented by the conversion that \<open>astype(dtype)\<close> applies to a sample.  When the parent
  segment has a start time, the new start time is
  \<open>t_start + decimation_offset / parent_rate\<close>, a division of an int by a float, which can
  raise.
\<close>

record 'a decimate_recording_segment =
  seg_sampling_frequency :: real
  seg_t_start :: "real option"
  parent_segment :: "'a recording_segment"
  seg_decimation_factor :: int
  seg_decimation_offset :: int
  seg_dtype :: "'a \<Rightarrow> 'a"

definition DecimateRecordingSegment_init ::
  "'a recording_segment \<Rightarrow> real \<Rightarrow> real \<Rightarrow> int \<Rightarrow> int \<Rightarrow> ('a \<Rightarrow> 'a)
     \<Rightarrow> py_error + 'a decimate_recording_segment" where
  "DecimateRecordingSegment_init parent_recording_segment resample_rate parent_rate
       decimation_factor decimation_offset dt =
     (case (case t_start parent_recording_segment of
              None \<Rightarrow> Inr None
            | Some t \<Rightarrow>
                (case int_truediv_float decimation_offset parent_rate of
                   Inl e \<Rightarrow> Inl e
                 | Inr q \<Rightarrow> Inr (Some (t + q)))) of
        Inl e \<Rightarrow> Inl e
      | Inr new_t_start \<Rightarrow>
          Inr \<lparr> seg_sampling_frequency = resample_rate,
                seg_t_start = new_t_start,
                parent_segment = parent_recording_segment,
                seg_decimation_factor = decimation_factor,
                seg_decimation_offset = decimation_offset,
                seg_dtype = dt \<rparr>)"

text \<open>
  \<open>get_num_samples\<close>:
  \<open>len(range(self._decimation_offset, self._parent_segment.get_num_samples(),
  self._decimation_factor))\<close>.
\<close>

definition get_num_samples :: "'a decimate_recording_segment \<Rightarrow> py_error + int" where
  "get_num_samples seg =
     (case py_range (seg_decimation_offset seg) (seg_get_num_samples (parent_segment seg))
             (seg_decimation_factor seg) of
        Inl e \<Rightarrow> Inl e
      | Inr r \<Rightarrow> Inr (int (length r)))"

text \<open>
  \<open>get_traces\<close>: the defaults for missing bounds, the parent's frame range, the read from
  the parent, the strided slice \<open>[::decimation_factor]\<close> and the dtype conversion, in the
  order of the source.
\<close>

definition get_traces ::
  "'a decimate_recording_segment \<Rightarrow> int option \<Rightarrow> int option \<Rightarrow> int list option
     \<Rightarrow> py_error + 'a list list" where
  "get_traces seg start_frame end_frame channel_indices =
     (let start_frame' = (case start_frame of None \<Rightarrow> 0 | Some s \<Rightarrow> s)
      in case (case end_frame of None \<Rightarrow> get_num_samples seg | Some e \<Rightarrow> Inr e) of
           Inl e \<Rightarrow> Inl e
         | Inr end_frame' \<Rightarrow>
             (let parent_start_frame =
                    seg_decimation_offset seg + start_frame' * seg_decimation_factor seg;
                  parent_end_frame =
                    parent_start_frame + (end_frame' - start_frame') * seg_decimation_factor seg
              in case seg_get_traces (parent_segment seg) parent_start_frame parent_end_frame
                        channel_indices of
                   Inl e \<Rightarrow> Inl e
                 | Inr parent_traces \<Rightarrow>
                     (case py_slice parent_traces None None (Some (seg_decimation_factor seg)) of
                        Inl e \<Rightarrow> Inl e
                      | Inr decimated \<Rightarrow> Inr (map (map (seg_dtype seg)) decimated))))"

text \<open>
  \<open>DecimateRecording\<close>: the fields set by its constructor, with the keyword arguments
  kept for serialisation.
\<close>

record 'a decimate_recording =
  orig_samp_freq :: real
  decimation_factor :: int
  decimation_offset :: int
  dec_sampling_frequency :: real
  dec_dtype :: "'a \<Rightarrow> 'a"
  dec_recording_segments :: "'a decimate_recording_segment list"
  kwargs_decimation_factor :: pyval
  kwargs_decimation_offset :: pyval

text \<open>
  The loop of the constructor over \<open>recording._recording_segments\<close>: each parent segment
  has its \<open>time_vector\<close> set to \<open>None\<close> and a decimating segment is built on it.  The
  child segment refers to the parent segment object, so it sees the assignment.  The loop
  returns the parent segments as they are left, and the child segments or the exception
  that stopped it: a parent segment is changed before its child is built, so the segment
  at which the loop stops is changed and the ones after it are not.
\<close>

fun add_decimate_segments ::
  "'a recording_segment list \<Rightarrow> real \<Rightarrow> real \<Rightarrow> pyval \<Rightarrow> pyval \<Rightarrow> ('a \<Rightarrow> 'a)
     \<Rightarrow> 'a recording_segment list \<times> (py_error + 'a decimate_recording_segment list)" where
  "add_decimate_segments [] resample_rate parent_rate fac off dt = ([], Inr [])"
| "add_decimate_segments (pseg # rest) resample_rate parent_rate fac off dt =
     (let pseg' = pseg\<lparr>time_vector := None\<rparr>
      in case DecimateRecordingSegment_init pseg' resample_rate parent_rate
                (int_of_pyval fac) (int_of_pyval off) dt of
           Inl e \<Rightarrow> (pseg' # rest, Inl e)
         | Inr child \<Rightarrow>
             (case add_decimate_segments rest resample_rate parent_rate fac off dt of
                (parents', Inl e) \<Rightarrow> (pseg' # parents', Inl e)
              | (parents', Inr children) \<Rightarrow> (pseg' # parents', Inr (child # children))))"

text \<open>
  \<open>DecimateRecording.__init__(recording, decimation_factor, decimation_offset=0)\<close>.  The
  second check tests \<open>decimation_factor < 0\<close>, as the source does.  The resampled rate is
  a division of a float by an int.  The call of \<open>BasePreprocessor.__init__\<close> (not part of
  the sources at hand) gives the new recording the parent's dtype and the resampled
  rate.  The constructor returns the new recording, or the exception raised, in both
  cases together with the parent recording as it is left.
\<close>

definition DecimateRecording_init ::
  "'a recording \<Rightarrow> pyval \<Rightarrow> pyval option
     \<Rightarrow> (py_error \<times> 'a recording) + ('a decimate_recording \<times> 'a recording)" where
  "DecimateRecording_init rec decimation_factor_arg decimation_offset_opt =
     (let decimation_offset_arg =
            (case decimation_offset_opt of None \<Rightarrow> PyInt 0 | Some v \<Rightarrow> v);
          orig = sampling_frequency rec
      in if \<not> isinstance_int decimation_factor_arg \<or> int_of_pyval decimation_factor_arg \<le> 0
         then Inl (ValueError, rec)
         else if \<not> isinstance_int decimation_offset_arg \<or> int_of_pyval decimation_factor_arg < 0
         then Inl (ValueError, rec)
         else
           (case float_truediv_int orig (int_of_pyval decimation_factor_arg) of
              Inl e \<Rightarrow> Inl (e, rec)
            | Inr resample_rate \<Rightarrow>
                (case add_decimate_segments (recording_segments rec) resample_rate orig
                        decimation_factor_arg decimation_offset_arg (dtype rec) of
                   (parents', Inl e) \<Rightarrow> Inl (e, rec\<lparr>recording_segments := parents'\<rparr>)
                 | (parents', Inr children) \<Rightarrow>
                     Inr (\<lparr> orig_samp_freq = orig,
                            decimation_factor = int_of_pyval decimation_factor_arg,
                            decimation_offset = int_of_pyval decimation_offset_arg,
                            dec_sampling_frequency = resample_rate,
                            dec_dtype = dtype rec,
                            dec_recording_segments = children,
                            kwargs_decimation_factor = decimation_factor_arg,
                            kwargs_decimation_offset = decimation_offset_arg \<rparr>,
                          rec\<lparr>recording_segments := parents'\<rparr>))))"

section \<open>Waveform extraction\<close>

text \<open>
  Modelled from the spec: the module \<open>waveform_tools\<close> (\<open>extract_waveforms_to_buffers\<close>,
  \<open>extract_waveforms_to_single_buffer\<close>, \<open>split_waveforms_by_units\<close> and the job runner
  below them) is not part of the sources at hand; only its test is.  The definitions of
  this section follow the component descriptions of the specification: chunk planner,
  buffer allocator, spike-to-slice indexer, waveform extractor, job runner and buffer
  splitter.  Samples are the values delivered by the read capability; the optional
  scaling and the output dtype are floating-point conversions and are left out.
\<close>

subsection \<open>Data model\<close>

record spike =
  sample_index :: int
  unit_index :: nat
  segment_index :: nat

datatype extraction_error =
    ConfigurationError
  | AllocationError
  | ExtractionError nat nat nat

datatype storage_kind = Memmap | SharedMemory

record extraction_config =
  storage :: storage_kind
  folder :: "string option"
  n_jobs :: int
  chunk_size :: int
  progress_bar :: bool
  sparsity_mask :: "bool list list option"
  copy :: bool

text \<open>A chunk is a segment index with a sample range \<open>[start, stop)\<close>.\<close>

type_synonym chunk = "nat \<times> nat \<times> nat"

text \<open>
  A waveform is an array of \<open>L = nbefore + nafter\<close> frames by channels; a buffer is a list
  of waveforms, one row per spike.
\<close>

type_synonym 'a waveform = "'a list list"

definition get_num_channels :: "'a recording \<Rightarrow> nat" where
  "get_num_channels rec =
     (case recording_segments rec of [] \<Rightarrow> 0 | seg # _ \<Rightarrow> num_channels seg)"

subsection \<open>Chunk planner\<close>

text \<open>
  Each segment's sample range is cut into consecutive chunks of \<open>chunk_size\<close> samples, the
  last one possibly shorter; a segment without samples yields no chunk.
\<close>

definition segment_chunks :: "nat \<Rightarrow> nat \<Rightarrow> nat \<Rightarrow> chunk list" where
  "segment_chunks seg n c =
     map (\<lambda>k. (seg, k * c, min ((k + 1) * c) n)) [0..<(n + c - 1) div c]"

definition plan_chunks :: "nat list \<Rightarrow> nat \<Rightarrow> chunk list" where
  "plan_chunks sizes c =
     concat (map (\<lambda>seg. segment_chunks seg (sizes ! seg) c) [0..<length sizes])"

subsection \<open>Buffer allocator\<close>

definition spike_count :: "spike list \<Rightarrow> nat \<Rightarrow> nat" where
  "spike_count spikes u = length (filter (\<lambda>s. unit_index s = u) spikes)"

text \<open>The channels of a unit: all of them when dense, those of its mask row when sparse.\<close>

definition active_channels :: "bool list list option \<Rightarrow> nat \<Rightarrow> nat \<Rightarrow> nat list" where
  "active_channels smask nch u =
     (case smask of
        None \<Rightarrow> [0..<nch]
      | Some m \<Rightarrow> filter (\<lambda>c. m ! u ! c) [0..<nch])"

definition unit_channel_indices ::
  "bool list list option \<Rightarrow> nat \<Rightarrow> nat \<Rightarrow> int list option" where
  "unit_channel_indices smask nch u =
     (case smask of
        None \<Rightarrow> None
      | Some m \<Rightarrow> Some (map int (active_channels smask nch u)))"

text \<open>
  The channel dimension of the single buffer: every channel when dense, the largest
  number of active channels of a unit when sparse.
\<close>

definition channels_used :: "bool list list option \<Rightarrow> nat \<Rightarrow> nat \<Rightarrow> nat" where
  "channels_used smask nch n_units =
     (case smask of
        None \<Rightarrow> nch
      | Some m \<Rightarrow> fold max (map (\<lambda>u. length (active_channels smask nch u)) [0..<n_units]) 0)"

definition zero_waveform :: "nat \<Rightarrow> nat \<Rightarrow> 'a::zero waveform" where
  "zero_waveform L width = replicate L (replicate width 0)"

text \<open>
  Configuration errors are raised before anything else: non-positive sizes, a mask that
  is not a units-by-channels matrix, a mask row without a true entry, and a spike
  sequence whose per-unit counts do not add up to its length (a spike refers to no
  unit).  The specification names the last two both an allocation error (4.2) and a
  configuration error (7); the taxonomy of section 7 is followed.
\<close>

definition mask_shape_ok :: "bool list list option \<Rightarrow> nat \<Rightarrow> nat \<Rightarrow> bool" where
  "mask_shape_ok smask nch n_units =
     (case smask of
        None \<Rightarrow> True
      | Some m \<Rightarrow> length m = n_units \<and> list_all (\<lambda>row. length row = nch) m)"

definition check_configuration ::
  "extraction_config \<Rightarrow> spike list \<Rightarrow> nat \<Rightarrow> nat \<Rightarrow> bool" where
  "check_configuration cfg spikes n_units nch =
     (0 < chunk_size cfg \<and> 1 \<le> n_jobs cfg
      \<and> mask_shape_ok (sparsity_mask cfg) nch n_units
      \<and> (sparsity_mask cfg \<noteq> None \<longrightarrow>
            list_all (\<lambda>u. active_channels (sparsity_mask cfg) nch u \<noteq> []) [0..<n_units])
      \<and> sum_list (map (spike_count spikes) [0..<n_units]) = length spikes)"

text \<open>
  Storage is zero-initialised whatever its kind.  Memory-mapped storage needs a folder;
  without one the allocation fails.
\<close>

definition storage_ok :: "extraction_config \<Rightarrow> bool" where
  "storage_ok cfg = (storage cfg = Memmap \<longrightarrow> folder cfg \<noteq> None)"

definition allocate_unit_buffers ::
  "extraction_config \<Rightarrow> spike list \<Rightarrow> nat \<Rightarrow> nat \<Rightarrow> nat
     \<Rightarrow> extraction_error + 'a::zero waveform list list" where
  "allocate_unit_buffers cfg spikes n_units L nch =
     (if \<not> storage_ok cfg then Inl AllocationError
      else Inr (map (\<lambda>u. replicate (spike_count spikes u)
                          (zero_waveform L (length (active_channels (sparsity_mask cfg) nch u))))
                  [0..<n_units]))"

definition allocate_single_buffer ::
  "extraction_config \<Rightarrow> spike list \<Rightarrow> nat \<Rightarrow> nat \<Rightarrow> nat
     \<Rightarrow> extraction_error + 'a::zero waveform list" where
  "allocate_single_buffer cfg spikes n_units L nch =
     (if \<not> storage_ok cfg then Inl AllocationError
      else Inr (replicate (length spikes)
                  (zero_waveform L (channels_used (sparsity_mask cfg) nch n_units))))"

subsection \<open>Spike-to-slice indexer\<close>

text \<open>
  One pass over the spike sequence with a counter per unit: each spike receives the
  number of earlier spikes of its unit.
\<close>

fun indexer_pass :: "spike list \<Rightarrow> (nat \<Rightarrow> nat) \<Rightarrow> nat list" where
  "indexer_pass [] counters = []"
| "indexer_pass (s # rest) counters =
     counters (unit_index s)
       # indexer_pass rest (counters(unit_index s := Suc (counters (unit_index s))))"

definition within_unit_position :: "spike list \<Rightarrow> nat list" where
  "within_unit_position spikes = indexer_pass spikes (\<lambda>_. 0)"

subsection \<open>Waveform extractor\<close>

text \<open>
  The window \<open>[sample_index - nbefore, sample_index + nafter)\<close> of the spike's segment: the
  read is clipped to the segment and the missing frames at either edge are zeros.
\<close>

definition extract_waveform ::
  "'a::zero recording \<Rightarrow> nat \<Rightarrow> nat \<Rightarrow> int list option \<Rightarrow> nat \<Rightarrow> spike
     \<Rightarrow> py_error + 'a waveform" where
  "extract_waveform rec nbefore nafter channel_indices width sp =
     (let seg = recording_segments rec ! segment_index sp;
          n = seg_get_num_samples seg;
          start = sample_index sp - int nbefore;
          stop = sample_index sp + int nafter;
          read_start = max 0 start;
          read_stop = min n stop
      in case seg_get_traces seg read_start read_stop channel_indices of
           Inl e \<Rightarrow> Inl e
         | Inr frames \<Rightarrow>
             Inr (replicate (nat (read_start - start)) (replicate width 0)
                  @ frames
                  @ replicate (nat (stop - read_stop)) (replicate width 0)))"

definition unit_waveform ::
  "'a::zero recording \<Rightarrow> nat \<Rightarrow> nat \<Rightarrow> bool list list option \<Rightarrow> spike
     \<Rightarrow> py_error + 'a waveform" where
  "unit_waveform rec nbefore nafter smask sp =
     extract_waveform rec nbefore nafter
       (unit_channel_indices smask (get_num_channels rec) (unit_index sp))
       (length (active_channels smask (get_num_channels rec) (unit_index sp))) sp"

subsection \<open>Job runner\<close>

text \<open>
  A write is the extraction of one spike of one chunk into its slot.  The planned writes
  are those of the chunks in plan order, each chunk taking its spikes in sequence order.
\<close>

definition chunk_spikes :: "spike list \<Rightarrow> chunk \<Rightarrow> nat list" where
  "chunk_spikes spikes ch =
     (case ch of (seg, start, stop) \<Rightarrow>
        filter (\<lambda>i. segment_index (spikes ! i) = seg
                  \<and> int start \<le> sample_index (spikes ! i)
                  \<and> sample_index (spikes ! i) < int stop)
          [0..<length spikes])"

definition planned_writes :: "spike list \<Rightarrow> chunk list \<Rightarrow> (chunk \<times> nat) list" where
  "planned_writes spikes chunks =
     concat (map (\<lambda>ch. map (Pair ch) (chunk_spikes spikes ch)) chunks)"

text \<open>
  With one worker the writes happen in the planned order.  With several workers the
  order is the pool's: the scheduler stands for it, any function that returns the planned
  writes in some order.
\<close>

definition execution_order ::
  "extraction_config \<Rightarrow> ((chunk \<times> nat) list \<Rightarrow> (chunk \<times> nat) list) \<Rightarrow> (chunk \<times> nat) list
     \<Rightarrow> (chunk \<times> nat) list" where
  "execution_order cfg scheduler planned =
     (if n_jobs cfg = 1 then planned else scheduler planned)"

definition fair_scheduler :: "((chunk \<times> nat) list \<Rightarrow> (chunk \<times> nat) list) \<Rightarrow> bool" where
  "fair_scheduler scheduler = (\<forall>ws. mset (scheduler ws) = mset ws)"

text \<open>The runner stops at the first failure and reports the failing chunk.\<close>

fun run_writes ::
  "('w \<Rightarrow> 'b \<Rightarrow> extraction_error + 'b) \<Rightarrow> 'w list \<Rightarrow> 'b \<Rightarrow> extraction_error + 'b" where
  "run_writes write [] buf = Inr buf"
| "run_writes write (w # ws) buf =
     (case write w buf of
        Inl e \<Rightarrow> Inl e
      | Inr buf' \<Rightarrow> run_writes write ws buf')"

definition chunk_error :: "chunk \<Rightarrow> extraction_error" where
  "chunk_error ch = (case ch of (seg, start, stop) \<Rightarrow> ExtractionError seg start stop)"

definition write_unit_buffers ::
  "'a::zero recording \<Rightarrow> spike list \<Rightarrow> nat list \<Rightarrow> nat \<Rightarrow> nat \<Rightarrow> bool list list option
     \<Rightarrow> chunk \<times> nat \<Rightarrow> 'a waveform list list \<Rightarrow> extraction_error + 'a waveform list list" where
  "write_unit_buffers rec spikes positions nbefore nafter smask w bufs =
     (case w of (ch, i) \<Rightarrow>
        (case unit_waveform rec nbefore nafter smask (spikes ! i) of
           Inl e \<Rightarrow> Inl (chunk_error ch)
         | Inr wav \<Rightarrow>
             Inr (bufs[unit_index (spikes ! i) :=
                        (bufs ! unit_index (spikes ! i))[positions ! i := wav]])))"

text \<open>
  In the single buffer a row has \<open>channels_used\<close> channels; a sparse waveform fills the
  first ones and the remaining ones are zero.
\<close>

definition pad_frame :: "nat \<Rightarrow> 'a::zero list \<Rightarrow> 'a list" where
  "pad_frame width fr = fr @ replicate (width - length fr) 0"

definition single_row ::
  "bool list list option \<Rightarrow> nat \<Rightarrow> 'a::zero waveform \<Rightarrow> 'a waveform" where
  "single_row smask width wav =
     (case smask of None \<Rightarrow> wav | Some m \<Rightarrow> map (pad_frame width) wav)"

definition write_single_buffer ::
  "'a::zero recording \<Rightarrow> spike list \<Rightarrow> nat \<Rightarrow> nat \<Rightarrow> bool list list option \<Rightarrow> nat
     \<Rightarrow> chunk \<times> nat \<Rightarrow> 'a waveform list \<Rightarrow> extraction_error + 'a waveform list" where
  "write_single_buffer rec spikes nbefore nafter smask width w buf =
     (case w of (ch, i) \<Rightarrow>
        (case unit_waveform rec nbefore nafter smask (spikes ! i) of
           Inl e \<Rightarrow> Inl (chunk_error ch)
         | Inr wav \<Rightarrow> Inr (buf[i := single_row smask width wav])))"

subsection \<open>Entry points\<close>

definition segment_sizes :: "'a recording \<Rightarrow> nat list" where
  "segment_sizes rec = map (\<lambda>seg. length (traces seg)) (recording_segments rec)"

definition extract_waveforms_to_buffers ::
  "'a::zero recording \<Rightarrow> spike list \<Rightarrow> 'u list \<Rightarrow> nat \<Rightarrow> nat \<Rightarrow> extraction_config
     \<Rightarrow> ((chunk \<times> nat) list \<Rightarrow> (chunk \<times> nat) list)
     \<Rightarrow> extraction_error + ('u \<times> 'a waveform list) list" where
  "extract_waveforms_to_buffers rec spikes unit_ids nbefore nafter cfg scheduler =
     (let nch = get_num_channels rec; n_units = length unit_ids
      in if \<not> check_configuration cfg spikes n_units nch then Inl ConfigurationError
         else case allocate_unit_buffers cfg spikes n_units (nbefore + nafter) nch of
                Inl e \<Rightarrow> Inl e
              | Inr bufs \<Rightarrow>
                  (let chunks = plan_chunks (segment_sizes rec) (nat (chunk_size cfg));
                       writes = execution_order cfg scheduler (planned_writes spikes chunks)
                   in case run_writes
                             (write_unit_buffers rec spikes (within_unit_position spikes)
                                nbefore nafter (sparsity_mask cfg))
                             writes bufs of
                        Inl e \<Rightarrow> Inl e
                      | Inr bufs' \<Rightarrow> Inr (zip unit_ids bufs')))"

definition extract_waveforms_to_single_buffer ::
  "'a::zero recording \<Rightarrow> spike list \<Rightarrow> 'u list \<Rightarrow> nat \<Rightarrow> nat \<Rightarrow> extraction_config
     \<Rightarrow> ((chunk \<times> nat) list \<Rightarrow> (chunk \<times> nat) list)
     \<Rightarrow> extraction_error + 'a waveform list" where
  "extract_waveforms_to_single_buffer rec spikes unit_ids nbefore nafter cfg scheduler =
     (let nch = get_num_channels rec; n_units = length unit_ids
      in if \<not> check_configuration cfg spikes n_units nch then Inl ConfigurationError
         else case allocate_single_buffer cfg spikes n_units (nbefore + nafter) nch of
                Inl e \<Rightarrow> Inl e
              | Inr buf \<Rightarrow>
                  (let chunks = plan_chunks (segment_sizes rec) (nat (chunk_size cfg));
                       writes = execution_order cfg scheduler (planned_writes spikes chunks)
                   in run_writes
                        (write_single_buffer rec spikes nbefore nafter (sparsity_mask cfg)
                           (channels_used (sparsity_mask cfg) nch n_units))
                        writes buf))"

subsection \<open>Buffer splitter\<close>

text \<open>
  The rows of each unit, in the order of the spike sequence; when sparse, restricted to
  the unit's number of active channels.  Views and copies hold the same values.
\<close>

definition num_active :: "bool list list \<Rightarrow> nat \<Rightarrow> nat" where
  "num_active m u = length (filter (\<lambda>b. b) (m ! u))"

definition split_waveforms_by_units ::
  "'u list \<Rightarrow> spike list \<Rightarrow> 'a waveform list \<Rightarrow> bool list list option
     \<Rightarrow> ('u \<times> 'a waveform list) list" where
  "split_waveforms_by_units unit_ids spikes all_waveforms smask =
     zip unit_ids
       (map (\<lambda>u.
          (let rows = map (\<lambda>i. all_waveforms ! i)
                        (filter (\<lambda>i. unit_index (spikes ! i) = u) [0..<length spikes])
           in case smask of
                None \<Rightarrow> rows
              | Some m \<Rightarrow> map (map (take (num_active m u))) rows))
          [0..<length unit_ids])"

text \<open>The valid inputs: a recording with one channel count and rectangular traces.\<close>

definition valid_recording :: "'a recording \<Rightarrow> bool" where
  "valid_recording rec =
     list_all (\<lambda>seg. num_channels seg = get_num_channels rec
                    \<and> list_all (\<lambda>fr. length fr = num_channels seg) (traces seg))
       (recording_segments rec)"

text \<open>The spike sequence is sorted by segment, then by sample.\<close>

definition spikes_sorted :: "spike list \<Rightarrow> bool" where
  "spikes_sorted spikes =
     sorted_wrt (\<lambda>a b. segment_index a < segment_index b
                    \<or> (segment_index a = segment_index b \<and> sample_index a \<le> sample_index b))
       spikes"

section \<open>Concrete recordings for evaluation\<close>

text \<open>
  A parent segment of ten frames and two channels, frame \<open>i\<close> holding \<open>i\<close> and \<open>100 + i\<close>,
  with a time vector; a decimating segment on it; a recording made of that segment; and
  a recording of two such segments that have a start time.
\<close>

definition example_parent :: "nat recording_segment" where
  "example_parent = \<lparr> traces = map (\<lambda>i. [i, 100 + i]) [0..<10], num_channels = 2,
       time_vector = Some [0, 1, 2, 3, 4, 5, 6, 7, 8, 9], t_start = None \<rparr>"

definition example_segment :: "int \<Rightarrow> int \<Rightarrow> nat decimate_recording_segment" where
  "example_segment f d = \<lparr> seg_sampling_frequency = 1, seg_t_start = None,
       parent_segment = example_parent, seg_decimation_factor = f,
       seg_decimation_offset = d, seg_dtype = (\<lambda>x. x) \<rparr>"

definition example_recording :: "nat recording" where
  "example_recording = \<lparr> sampling_frequency = 30000, dtype = (\<lambda>x. x),
       recording_segments = [example_parent] \<rparr>"

definition example_started :: "nat recording" where
  "example_started = \<lparr> sampling_frequency = 30000, dtype = (\<lambda>x. x),
       recording_segments = [example_parent\<lparr>t_start := Some 0\<rparr>,
                             example_parent\<lparr>t_start := Some 1\<rparr>] \<rparr>"

section \<open>Properties of decimate.py\<close>

subsection \<open>Integer division and \<open>range\<close>\<close>

lemma le_zdiv_iff:
  fixes a s k :: int
  assumes "0 < s"
  shows "k \<le> a div s \<longleftrightarrow> k * s \<le> a"
proof
  assume "k \<le> a div s"
  then have "k * s \<le> (a div s) * s"
    using assms by (simp add: mult_right_mono)
  also have "\<dots> \<le> a"
    using assms by (metis div_mult_mod_eq le_add_same_cancel1 pos_mod_sign)
  finally show "k * s \<le> a" .
next
  assume "k * s \<le> a"
  then have "(k * s) div s \<le> a div s"
    using assms by (rule zdiv_mono1)
  then show "k \<le> a div s"
    using assms by simp
qed

lemma neg_div_ceil:
  fixes a s :: int
  assumes "0 < s"
  shows "- ((- a) div s) = (a - 1) div s + 1"
proof (rule antisym)
  have "\<not> (a - 1) div s + 1 \<le> (a - 1) div s" by simp
  then have "\<not> ((a - 1) div s + 1) * s \<le> a - 1"
    using le_zdiv_iff[OF assms] by blast
  then have "(- ((a - 1) div s) - 1) * s \<le> - a"
    by (simp add: algebra_simps)
  then have "- ((a - 1) div s) - 1 \<le> (- a) div s"
    using le_zdiv_iff[OF assms] by blast
  then show "- ((- a) div s) \<le> (a - 1) div s + 1" by linarith
next
  have "((a - 1) div s) * s \<le> a - 1"
    using le_zdiv_iff[OF assms, of "(a - 1) div s" "a - 1"] by simp
  then have "\<not> (- ((a - 1) div s)) * s \<le> - a"
    by (simp add: algebra_simps)
  then have "\<not> - ((a - 1) div s) \<le> (- a) div s"
    using le_zdiv_iff[OF assms] by blast
  then show "(a - 1) div s + 1 \<le> - ((- a) div s)" by linarith
qed

lemma py_range_len_pos:
  "0 < step \<Longrightarrow> lo < hi \<Longrightarrow> int (py_range_len lo hi step) = (hi - lo - 1) div step + 1"
  by (simp add: py_range_len_def pos_imp_zdiv_nonneg_iff)

lemma py_range_len_pos_empty:
  "0 < step \<Longrightarrow> hi \<le> lo \<Longrightarrow> py_range_len lo hi step = 0"
  by (simp add: py_range_len_def)

lemma py_range_len_less_iff:
  assumes "0 < step"
  shows "k < py_range_len lo hi step \<longleftrightarrow> lo + int k * step < hi"
proof (cases "lo < hi")
  case False
  have "0 \<le> int k * step" using assms by simp
  then have "\<not> lo + int k * step < hi" using False by linarith
  then show ?thesis using assms False by (simp add: py_range_len_pos_empty)
next
  case True
  have "int k < int (py_range_len lo hi step) \<longleftrightarrow> int k \<le> (hi - lo - 1) div step"
    using py_range_len_pos[OF assms True] by simp
  also have "\<dots> \<longleftrightarrow> int k * step \<le> hi - lo - 1"
    using assms by (rule le_zdiv_iff)
  finally show ?thesis by auto
qed

lemma py_range_len_ceiling:
  assumes "0 < step" "lo < hi"
  shows "int (py_range_len lo hi step) = \<lceil>real_of_int (hi - lo) / real_of_int step\<rceil>"
  using py_range_len_pos[OF assms] neg_div_ceil[OF assms(1), of "hi - lo"]
  unfolding ceiling_divide_eq_div by simp

lemma py_range_set_pos:
  assumes "0 < step"
  shows "{k. lo \<le> k \<and> k < hi \<and> step dvd (k - lo)}
           = (\<lambda>i. lo + int i * step) ` {i. i < py_range_len lo hi step}"
proof (intro set_eqI iffI)
  fix k assume "k \<in> {k. lo \<le> k \<and> k < hi \<and> step dvd (k - lo)}"
  then have k: "lo \<le> k" "k < hi" "step dvd (k - lo)" by auto
  from k(3) obtain q where q: "k - lo = step * q" by (auto simp: dvd_def)
  have "0 \<le> q"
  proof (rule ccontr)
    assume "\<not> 0 \<le> q"
    then have "q < 0" by simp
    then have "step * q < 0" using assms by (simp add: mult_pos_neg)
    with q k(1) show False by linarith
  qed
  then have kq: "k = lo + int (nat q) * step" using q by (simp add: algebra_simps)
  then have "nat q < py_range_len lo hi step"
    using k(2) py_range_len_less_iff[OF assms, of "nat q" lo hi] by simp
  with kq show "k \<in> (\<lambda>i. lo + int i * step) ` {i. i < py_range_len lo hi step}"
    by blast
next
  fix k assume "k \<in> (\<lambda>i. lo + int i * step) ` {i. i < py_range_len lo hi step}"
  then obtain i where i: "k = lo + int i * step" "i < py_range_len lo hi step" by auto
  have "0 \<le> int i * step" using assms by simp
  moreover have "k < hi" using i py_range_len_less_iff[OF assms, of i lo hi] by simp
  ultimately show "k \<in> {k. lo \<le> k \<and> k < hi \<and> step dvd (k - lo)}"
    using i(1) by simp
qed

lemma py_range_card_pos:
  assumes "0 < step"
  shows "card {k. lo \<le> k \<and> k < hi \<and> step dvd (k - lo)} = py_range_len lo hi step"
proof -
  have "inj_on (\<lambda>i. lo + int i * step) {i. i < py_range_len lo hi step}"
    using assms by (auto simp: inj_on_def)
  then show ?thesis
    unfolding py_range_set_pos[OF assms] by (simp add: card_image)
qed

lemma py_slice_from_step_length:
  assumes "0 < f" "0 \<le> d"
  shows "\<exists>sl. py_slice xs (Some d) None (Some f) = Inr sl
           \<and> length sl = py_range_len d (int (length xs)) f"
proof (cases "d < int (length xs)")
  case True
  then show ?thesis using assms
    by (simp add: py_slice_def py_slice_indices_def py_range_def Let_def)
next
  case False
  then show ?thesis using assms
    by (simp add: py_slice_def py_slice_indices_def py_range_def Let_def py_range_len_pos_empty)
qed

subsection \<open>The number of samples of a decimated segment\<close>

lemmas example_defs = example_segment_def example_parent_def example_recording_def

text \<open>
  C8.  For a decimating segment with factor \<open>f \<ge> 1\<close> and offset \<open>d \<ge> 0\<close> on a parent of
  \<open>N\<close> samples, \<open>get_num_samples()\<close> is the length of the slice \<open>parent_traces[d::f]\<close>,
  that is the number of integers \<open>d, d + f, d + 2f, \<dots>\<close> below \<open>N\<close>, which is
  \<open>\<lceil>(N - d) / f\<rceil>\<close> when \<open>d < N\<close> and \<open>0\<close> otherwise.
\<close>

theorem get_num_samples_range_len:
  assumes "1 \<le> seg_decimation_factor seg" and "0 \<le> seg_decimation_offset seg"
  shows "(\<exists>sl. py_slice (traces (parent_segment seg)) (Some (seg_decimation_offset seg)) None
                 (Some (seg_decimation_factor seg)) = Inr sl
              \<and> get_num_samples seg = Inr (int (length sl)))
       \<and> get_num_samples seg =
            Inr (int (card {k. seg_decimation_offset seg \<le> k
                              \<and> k < seg_get_num_samples (parent_segment seg)
                              \<and> seg_decimation_factor seg dvd (k - seg_decimation_offset seg)}))
       \<and> get_num_samples seg =
            Inr (if seg_decimation_offset seg < seg_get_num_samples (parent_segment seg)
                 then \<lceil>real_of_int (seg_get_num_samples (parent_segment seg) - seg_decimation_offset seg)
                         / real_of_int (seg_decimation_factor seg)\<rceil>
                 else 0)"
proof -
  let ?f = "seg_decimation_factor seg" and ?d = "seg_decimation_offset seg"
  let ?N = "seg_get_num_samples (parent_segment seg)"
  have f: "0 < ?f" using assms(1) by simp
  have n: "get_num_samples seg = Inr (int (py_range_len ?d ?N ?f))"
    using f by (simp add: get_num_samples_def py_range_def)
  have a: "\<exists>sl. py_slice (traces (parent_segment seg)) (Some ?d) None (Some ?f) = Inr sl
              \<and> get_num_samples seg = Inr (int (length sl))"
    using py_slice_from_step_length[OF f assms(2), of "traces (parent_segment seg)"] n
    by (auto simp: seg_get_num_samples_def)
  have b: "get_num_samples seg =
      Inr (int (card {k. ?d \<le> k \<and> k < ?N \<and> ?f dvd (k - ?d)}))"
    using n py_range_card_pos[OF f, of ?d ?N] by simp
  have c: "get_num_samples seg =
      Inr (if ?d < ?N then \<lceil>real_of_int (?N - ?d) / real_of_int ?f\<rceil> else 0)"
  proof (cases "?d < ?N")
    case True
    then show ?thesis using n py_range_len_ceiling[OF f True] by simp
  next
    case False
    then show ?thesis using n f by (simp add: py_range_len_pos_empty)
  qed
  from a b c show ?thesis by blast
qed

theorem get_num_samples_range_len_witness:
  "1 \<le> seg_decimation_factor (example_segment 3 1)
   \<and> 0 \<le> seg_decimation_offset (example_segment 3 1)
   \<and> get_num_samples (example_segment 3 1) = Inr 3
   \<and> card {k. 1 \<le> k \<and> k < 10 \<and> (3::int) dvd (k - 1)} = 3"
proof -
  have sel: "seg_decimation_factor (example_segment 3 1) = 3"
    "seg_decimation_offset (example_segment 3 1) = 1"
    "seg_get_num_samples (parent_segment (example_segment 3 1)) = 10"
    by (simp_all add: example_defs seg_get_num_samples_def)
  have h1: "1 \<le> seg_decimation_factor (example_segment 3 1)"
    and h2: "0 \<le> seg_decimation_offset (example_segment 3 1)"
    by (simp_all add: sel)
  note inst = get_num_samples_range_len[OF h1 h2, unfolded sel]
  have n: "get_num_samples (example_segment 3 1) = Inr 3"
    using conjunct2[OF conjunct2[OF inst]] by simp
  have "get_num_samples (example_segment 3 1)
          = Inr (int (card {k. 1 \<le> k \<and> k < 10 \<and> (3::int) dvd (k - 1)}))"
    using conjunct1[OF conjunct2[OF inst]] .
  with n have "card {k. 1 \<le> k \<and> k < 10 \<and> (3::int) dvd (k - 1)} = 3" by simp
  with h1 h2 n show ?thesis by blast
qed

subsection \<open>The frames read by \<open>get_traces\<close>\<close>

lemma py_slice_step1:
  assumes "0 \<le> a" "0 \<le> b"
  shows "py_slice xs (Some a) (Some b) None =
           Inr (map (\<lambda>k. xs ! (nat (min a (int (length xs))) + k))
                  [0..<py_range_len (min a (int (length xs))) (min b (int (length xs))) 1])"
  using assms
  by (auto simp: py_slice_def py_slice_indices_def py_range_def Let_def min_def nat_add_distrib)

lemma py_slice_stride:
  assumes "0 < f"
  shows "py_slice xs None None (Some f) =
           Inr (map (\<lambda>k. xs ! (k * nat f)) [0..<py_range_len 0 (int (length xs)) f])"
  using assms
  by (simp add: py_slice_def py_slice_indices_def py_range_def Let_def nat_mult_distrib)

lemma get_num_samples_pos:
  assumes "0 < seg_decimation_factor seg"
  shows "get_num_samples seg =
           Inr (int (py_range_len (seg_decimation_offset seg)
                  (seg_get_num_samples (parent_segment seg)) (seg_decimation_factor seg)))"
  using assms by (simp add: get_num_samples_def py_range_def)

lemma decimated_frame_count:
  fixes d f s e N :: int
  assumes f: "0 < f" and d: "0 \<le> d" and s: "0 \<le> s" and se: "s \<le> e"
    and e: "e \<le> int (py_range_len d N f)"
  shows "py_range_len 0
           (int (py_range_len (min (d + s * f) N) (min (d + s * f + (e - s) * f) N) 1)) f
         = nat (e - s)"
    and "s < e \<Longrightarrow> d + s * f < N"
    and "int k < e - s \<Longrightarrow> d + (s + int k) * f < N"
proof -
  have in_range: "d + (s + int k) * f < N" if "int k < e - s" for k
  proof -
    have "nat (s + int k) < py_range_len d N f" using that e s by linarith
    then have "d + int (nat (s + int k)) * f < N"
      using py_range_len_less_iff[OF f] by blast
    then show ?thesis using s by simp
  qed
  then show "int k < e - s \<Longrightarrow> d + (s + int k) * f < N" .
  show lo: "d + s * f < N" if "s < e"
    using in_range[of 0] that by simp
  let ?ps = "d + s * f"
  let ?len = "py_range_len (min ?ps N) (min (?ps + (e - s) * f) N) 1"
  have len: "k < ?len \<longleftrightarrow> min ?ps N + int k < min (?ps + (e - s) * f) N" for k
    using py_range_len_less_iff[of 1 k] by simp
  have "k < py_range_len 0 (int ?len) f \<longleftrightarrow> k < nat (e - s)" for k
  proof -
    have "k < py_range_len 0 (int ?len) f \<longleftrightarrow> int k * f < int ?len"
      using py_range_len_less_iff[OF f, of k 0] by simp
    also have "\<dots> \<longleftrightarrow> nat (int k * f) < ?len"
    proof -
      have "0 \<le> int k * f" using f by simp
      then show ?thesis by linarith
    qed
    also have "\<dots> \<longleftrightarrow> min ?ps N + int k * f < min (?ps + (e - s) * f) N"
      using len[of "nat (int k * f)"] f by simp
    also have "\<dots> \<longleftrightarrow> int k < e - s"
    proof
      assume a: "min ?ps N + int k * f < min (?ps + (e - s) * f) N"
      have "0 \<le> int k * f" using f by simp
      with a have "?ps < N" by (simp add: min_def split: if_splits)
      with a have "int k * f < (e - s) * f" by (simp add: min_def split: if_splits)
      then show "int k < e - s" using f by (simp add: mult_less_cancel_right)
    next
      assume a: "int k < e - s"
      then have "int k * f < (e - s) * f" using f by (simp add: mult_less_cancel_right)
      moreover have "d + (s + int k) * f < N" using in_range[OF a] .
      moreover have "0 \<le> int k * f" using f by simp
      ultimately show "min ?ps N + int k * f < min (?ps + (e - s) * f) N"
        by (simp add: min_def algebra_simps)
    qed
    finally show ?thesis by linarith
  qed
  then show "py_range_len 0 (int ?len) f = nat (e - s)"
    by (metis linorder_neqE_nat less_irrefl)
qed

lemma get_traces_decimated_aux:
  assumes f: "0 < seg_decimation_factor seg" and d: "0 \<le> seg_decimation_offset seg"
    and n: "get_num_samples seg = Inr n"
    and s: "0 \<le> start_frame" and se: "start_frame \<le> end_frame" and e: "end_frame \<le> n"
    and cv: "channels_valid (num_channels (parent_segment seg)) channel_indices"
  shows "get_traces seg (Some start_frame) (Some end_frame) channel_indices =
           Inr (map (\<lambda>i. map (seg_dtype seg)
                      (select_frame (num_channels (parent_segment seg)) channel_indices
                         (traces (parent_segment seg)
                            ! nat (seg_decimation_offset seg
                                   + (start_frame + int i) * seg_decimation_factor seg))))
                  [0..<nat (end_frame - start_frame)])"
proof -
  let ?f = "seg_decimation_factor seg" and ?d = "seg_decimation_offset seg"
  let ?xs = "traces (parent_segment seg)"
  let ?N = "int (length ?xs)"
  let ?ps = "?d + start_frame * ?f"
  let ?pe = "?ps + (end_frame - start_frame) * ?f"
  let ?sel = "select_frame (num_channels (parent_segment seg)) channel_indices"
  let ?len = "py_range_len (min ?ps ?N) (min ?pe ?N) 1"
  let ?m = "nat (end_frame - start_frame)"
  have en: "end_frame \<le> int (py_range_len ?d ?N ?f)"
    using n e get_num_samples_pos[OF f] by (simp add: seg_get_num_samples_def)
  have ps0: "0 \<le> ?ps" using d s f by simp
  have pe0: "0 \<le> ?pe" using ps0 se f by simp
  have parent: "seg_get_traces (parent_segment seg) ?ps ?pe channel_indices =
      Inr (map ?sel (map (\<lambda>k. ?xs ! (nat (min ?ps ?N) + k)) [0..<?len]))"
    using cv by (simp add: seg_get_traces_def py_slice_step1[OF ps0 pe0] select_channels_def)
  have m: "py_range_len 0 (int ?len) ?f = ?m"
    using decimated_frame_count(1)[OF f d s se en] .
  have elem: "map ?sel (map (\<lambda>k. ?xs ! (nat (min ?ps ?N) + k)) [0..<?len]) ! (k * nat ?f)
           = ?sel (?xs ! nat (?d + (start_frame + int k) * ?f))" if k: "k < ?m" for k
  proof -
    have "k < py_range_len 0 (int ?len) ?f" using k m by simp
    then have "int k * ?f < int ?len" using py_range_len_less_iff[OF f, of k 0] by simp
    moreover have "int (k * nat ?f) = int k * ?f" using f by simp
    ultimately have lt: "k * nat ?f < ?len" by linarith
    have "start_frame < end_frame" using k by linarith
    then have "?ps < ?N" using decimated_frame_count(2)[OF f d s se en] by simp
    then have "min ?ps ?N = ?ps" by simp
    moreover have "int (nat ?ps + k * nat ?f) = ?d + (start_frame + int k) * ?f"
      using ps0 f by (simp add: algebra_simps)
    ultimately have "nat (min ?ps ?N) + k * nat ?f = nat (?d + (start_frame + int k) * ?f)"
      by (metis nat_int)
    then show ?thesis using lt by simp
  qed
  have "get_traces seg (Some start_frame) (Some end_frame) channel_indices =
      Inr (map (map (seg_dtype seg))
             (map (\<lambda>k. map ?sel (map (\<lambda>k. ?xs ! (nat (min ?ps ?N) + k)) [0..<?len]) ! (k * nat ?f))
                [0..<?m]))"
    using m by (simp add: get_traces_def Let_def parent py_slice_stride[OF f])
  also have "\<dots> = Inr (map (\<lambda>i. map (seg_dtype seg) (?sel (?xs ! nat (?d + (start_frame + int i) * ?f))))
                  [0..<?m])"
    using elem by simp
  finally show ?thesis .
qed

text \<open>
  For a decimating segment with factor \<open>f \<ge> 1\<close> and a non-negative offset \<open>d\<close>, and frames
  \<open>0 \<le> start_frame \<le> end_frame \<le> get_num_samples()\<close>,
  \<open>get_traces(start_frame, end_frame, channel_indices)\<close> returns exactly
  \<open>end_frame - start_frame\<close> frames; the \<open>i\<close>-th is the parent's frame at index
  \<open>d + (start_frame + i) * f\<close>, which lies inside the parent, restricted to the selected
  channels and converted to the segment's dtype.
\<close>

theorem get_traces_decimated:
  assumes "1 \<le> seg_decimation_factor seg" and "0 \<le> seg_decimation_offset seg"
    and "get_num_samples seg = Inr n"
    and "0 \<le> start_frame" and "start_frame \<le> end_frame" and "end_frame \<le> n"
    and "channels_valid (num_channels (parent_segment seg)) channel_indices"
  shows "\<exists>res. get_traces seg (Some start_frame) (Some end_frame) channel_indices = Inr res
           \<and> int (length res) = end_frame - start_frame
           \<and> (\<forall>i < length res.
                 seg_decimation_offset seg + (start_frame + int i) * seg_decimation_factor seg
                   < seg_get_num_samples (parent_segment seg)
               \<and> res ! i = map (seg_dtype seg)
                     (select_frame (num_channels (parent_segment seg)) channel_indices
                        (traces (parent_segment seg)
                           ! nat (seg_decimation_offset seg
                                  + (start_frame + int i) * seg_decimation_factor seg))))"
proof -
  have f: "0 < seg_decimation_factor seg" using assms(1) by simp
  have en: "end_frame \<le> int (py_range_len (seg_decimation_offset seg)
              (seg_get_num_samples (parent_segment seg)) (seg_decimation_factor seg))"
    using assms(3,6) get_num_samples_pos[OF f] by simp
  show ?thesis
    using get_traces_decimated_aux[OF f assms(2-7)]
      decimated_frame_count(3)[OF f assms(2,4,5) en] assms(5)
    by simp
qed

theorem get_traces_decimated_witness:
  "\<exists>res. get_traces (example_segment 3 1) (Some 1) (Some 3) (Some [1, - 2]) = Inr res
      \<and> length res = 2 \<and> res ! 0 = [104, 4] \<and> res ! 1 = [107, 7]"
proof -
  have h1: "1 \<le> seg_decimation_factor (example_segment 3 1)"
    by (simp add: example_segment_def)
  have h2: "0 \<le> seg_decimation_offset (example_segment 3 1)"
    by (simp add: example_segment_def)
  have h3: "get_num_samples (example_segment 3 1) = Inr 3"
    by (simp add: get_num_samples_def py_range_def py_range_len_def example_defs
          seg_get_num_samples_def)
  have h4: "channels_valid (num_channels (parent_segment (example_segment 3 1))) (Some [1, - 2])"
    by (simp add: channels_valid_def example_defs)
  obtain res where res:
    "get_traces (example_segment 3 1) (Some 1) (Some 3) (Some [1, - 2]) = Inr res"
    "int (length res) = 3 - 1"
    "\<forall>i < length res.
        seg_decimation_offset (example_segment 3 1)
          + (1 + int i) * seg_decimation_factor (example_segment 3 1)
          < seg_get_num_samples (parent_segment (example_segment 3 1))
        \<and> res ! i = map (seg_dtype (example_segment 3 1))
              (select_frame (num_channels (parent_segment (example_segment 3 1))) (Some [1, - 2])
                 (traces (parent_segment (example_segment 3 1))
                    ! nat (seg_decimation_offset (example_segment 3 1)
                           + (1 + int i) * seg_decimation_factor (example_segment 3 1))))"
    using get_traces_decimated[OF h1 h2 h3 _ _ _ h4, of 1 3] by auto
  have len: "length res = 2" using res(2) by simp
  have "res ! 0 = [104, 4]"
    using res(3) len by (simp add: example_defs select_frame_def)
  moreover have "res ! 1 = [107, 7]"
    using res(3) len by (simp add: example_defs select_frame_def)
  ultimately show ?thesis using res(1) len by simp
qed

subsection \<open>The constructor\<close>

lemma DecimateRecordingSegment_init_ok:
  "(\<exists>child. DecimateRecordingSegment_init pseg rr pr f d dt = Inr child)
     \<longleftrightarrow> (t_start pseg \<noteq> None \<longrightarrow> \<not> int_too_large_for_float d \<and> pr \<noteq> 0)"
  by (auto simp: DecimateRecordingSegment_init_def int_truediv_float_def
           split: option.splits sum.splits if_splits)

lemma DecimateRecordingSegment_init_parent:
  "DecimateRecordingSegment_init pseg rr pr f d dt = Inr child \<Longrightarrow> parent_segment child = pseg"
  by (auto simp: DecimateRecordingSegment_init_def split: option.splits sum.splits)

lemma DecimateRecordingSegment_init_error:
  "DecimateRecordingSegment_init pseg rr pr f d dt = Inl e \<Longrightarrow> e \<noteq> ValueError"
  by (auto simp: DecimateRecordingSegment_init_def int_truediv_float_def
           split: option.splits sum.splits if_splits)

lemma add_decimate_segments_success:
  "add_decimate_segments segs rr pr fac off dt = (parents', Inr children) \<Longrightarrow>
     parents' = map (\<lambda>s. s\<lparr>time_vector := None\<rparr>) segs
     \<and> map parent_segment children = map (\<lambda>s. s\<lparr>time_vector := None\<rparr>) segs"
proof (induction segs arbitrary: parents' children)
  case Nil
  then show ?case by simp
next
  case (Cons pseg rest)
  from Cons.prems obtain child ps cs where
    child: "DecimateRecordingSegment_init (pseg\<lparr>time_vector := None\<rparr>) rr pr
              (int_of_pyval fac) (int_of_pyval off) dt = Inr child"
    and rest: "add_decimate_segments rest rr pr fac off dt = (ps, Inr cs)"
    and res: "parents' = pseg\<lparr>time_vector := None\<rparr> # ps" "children = child # cs"
    by (auto simp: Let_def split: sum.splits prod.splits)
  from Cons.IH[OF rest] DecimateRecordingSegment_init_parent[OF child] res
  show ?case by simp
qed

lemma add_decimate_segments_ok:
  "(\<exists>parents' children. add_decimate_segments segs rr pr fac off dt = (parents', Inr children))
     \<longleftrightarrow> (\<forall>seg \<in> set segs. t_start seg \<noteq> None \<longrightarrow>
            \<not> int_too_large_for_float (int_of_pyval off) \<and> pr \<noteq> 0)"
proof (induction segs)
  case Nil
  then show ?case by simp
next
  case (Cons pseg rest)
  let ?init = "DecimateRecordingSegment_init (pseg\<lparr>time_vector := None\<rparr>) rr pr
              (int_of_pyval fac) (int_of_pyval off) dt"
  have first: "(\<exists>child. ?init = Inr child)
     \<longleftrightarrow> (t_start pseg \<noteq> None \<longrightarrow> \<not> int_too_large_for_float (int_of_pyval off) \<and> pr \<noteq> 0)"
    using DecimateRecordingSegment_init_ok[of "pseg\<lparr>time_vector := None\<rparr>"] by simp
  have "(\<exists>parents' children.
           add_decimate_segments (pseg # rest) rr pr fac off dt = (parents', Inr children))
        \<longleftrightarrow> (\<exists>child. ?init = Inr child)
            \<and> (\<exists>ps cs. add_decimate_segments rest rr pr fac off dt = (ps, Inr cs))"
    by (auto simp: Let_def split: sum.splits prod.splits)
  then show ?case using first Cons.IH by auto
qed

lemma add_decimate_segments_error:
  "add_decimate_segments segs rr pr fac off dt = (parents', Inl e) \<Longrightarrow> e \<noteq> ValueError"
proof (induction segs arbitrary: parents')
  case Nil
  then show ?case by simp
next
  case (Cons pseg rest)
  then show ?case
    by (auto simp: Let_def split: sum.splits prod.splits
             dest: DecimateRecordingSegment_init_error)
qed

lemma time_vector_update_id:
  "s\<lparr>time_vector := None\<rparr> = s \<longleftrightarrow> time_vector s = None"
  by (cases s) auto

lemma drop_time_vectors_id:
  "map (\<lambda>s. s\<lparr>time_vector := None\<rparr>) segs = segs \<longleftrightarrow> (\<forall>s \<in> set segs. time_vector s = None)"
  by (induction segs) (auto simp: time_vector_update_id)

lemma DecimateRecording_init_rejects:
  assumes "\<not> isinstance_int fac \<or> int_of_pyval fac \<le> 0
     \<or> \<not> isinstance_int (case off of None \<Rightarrow> PyInt 0 | Some v \<Rightarrow> v)"
  shows "DecimateRecording_init rec fac off = Inl (ValueError, rec)"
  using assms by (auto simp: DecimateRecording_init_def Let_def)

lemma DecimateRecording_init_passes:
  assumes "isinstance_int fac" "0 < int_of_pyval fac"
    "isinstance_int (case off of None \<Rightarrow> PyInt 0 | Some v \<Rightarrow> v)"
  shows "DecimateRecording_init rec fac off =
     (case float_truediv_int (sampling_frequency rec) (int_of_pyval fac) of
        Inl e \<Rightarrow> Inl (e, rec)
      | Inr resample_rate \<Rightarrow>
          (case add_decimate_segments (recording_segments rec) resample_rate
                  (sampling_frequency rec) fac (case off of None \<Rightarrow> PyInt 0 | Some v \<Rightarrow> v)
                  (dtype rec) of
             (parents', Inl e) \<Rightarrow> Inl (e, rec\<lparr>recording_segments := parents'\<rparr>)
           | (parents', Inr children) \<Rightarrow>
               Inr (\<lparr> orig_samp_freq = sampling_frequency rec,
                      decimation_factor = int_of_pyval fac,
                      decimation_offset =
                        int_of_pyval (case off of None \<Rightarrow> PyInt 0 | Some v \<Rightarrow> v),
                      dec_sampling_frequency = resample_rate,
                      dec_dtype = dtype rec,
                      dec_recording_segments = children,
                      kwargs_decimation_factor = fac,
                      kwargs_decimation_offset = (case off of None \<Rightarrow> PyInt 0 | Some v \<Rightarrow> v) \<rparr>,
                    rec\<lparr>recording_segments := parents'\<rparr>)))"
  using assms by (simp add: DecimateRecording_init_def Let_def)

lemma float_truediv_int_pos:
  "0 < n \<Longrightarrow> float_truediv_int x n =
     (if int_too_large_for_float n then Inl OverflowError else Inr (x / real_of_int n))"
  by (simp add: float_truediv_int_def)

lemma DecimateRecording_init_no_ValueError:
  assumes "isinstance_int fac" "0 < int_of_pyval fac"
    "isinstance_int (case off of None \<Rightarrow> PyInt 0 | Some v \<Rightarrow> v)"
  shows "DecimateRecording_init rec fac off \<noteq> Inl (ValueError, r)"
proof (cases "int_too_large_for_float (int_of_pyval fac)")
  case True
  then show ?thesis
    using assms by (simp add: DecimateRecording_init_passes float_truediv_int_pos)
next
  case False
  obtain ps res where a: "add_decimate_segments (recording_segments rec)
       (sampling_frequency rec / real_of_int (int_of_pyval fac)) (sampling_frequency rec)
       fac (case off of None \<Rightarrow> PyInt 0 | Some v \<Rightarrow> v) (dtype rec) = (ps, res)"
    by (cases "add_decimate_segments (recording_segments rec)
       (sampling_frequency rec / real_of_int (int_of_pyval fac)) (sampling_frequency rec)
       fac (case off of None \<Rightarrow> PyInt 0 | Some v \<Rightarrow> v) (dtype rec)") blast
  show ?thesis
  proof (cases res)
    case (Inl e)
    then have "e \<noteq> ValueError" using a add_decimate_segments_error by blast
    then show ?thesis using assms False a Inl
      by (simp add: DecimateRecording_init_passes float_truediv_int_pos)
  next
    case (Inr children)
    then show ?thesis using assms False a
      by (simp add: DecimateRecording_init_passes float_truediv_int_pos)
  qed
qed

lemma DecimateRecording_init_accepted_iff:
  assumes "isinstance_int fac" "0 < int_of_pyval fac"
    "isinstance_int (case off of None \<Rightarrow> PyInt 0 | Some v \<Rightarrow> v)"
  shows "\<not> isl (DecimateRecording_init rec fac off) \<longleftrightarrow>
     \<not> int_too_large_for_float (int_of_pyval fac)
     \<and> (\<forall>seg \<in> set (recording_segments rec). t_start seg \<noteq> None \<longrightarrow>
           \<not> int_too_large_for_float (int_of_pyval (case off of None \<Rightarrow> PyInt 0 | Some v \<Rightarrow> v))
           \<and> sampling_frequency rec \<noteq> 0)"
proof (cases "int_too_large_for_float (int_of_pyval fac)")
  case True
  then show ?thesis
    using assms by (simp add: DecimateRecording_init_passes float_truediv_int_pos)
next
  case False
  let ?add = "add_decimate_segments (recording_segments rec)
       (sampling_frequency rec / real_of_int (int_of_pyval fac)) (sampling_frequency rec)
       fac (case off of None \<Rightarrow> PyInt 0 | Some v \<Rightarrow> v) (dtype rec)"
  have "\<not> isl (DecimateRecording_init rec fac off) \<longleftrightarrow> (\<exists>ps cs. ?add = (ps, Inr cs))"
    using assms False
    by (auto simp: DecimateRecording_init_passes float_truediv_int_pos
             split: prod.splits sum.splits)
  then show ?thesis
    using False add_decimate_segments_ok[of "recording_segments rec"
       "sampling_frequency rec / real_of_int (int_of_pyval fac)" "sampling_frequency rec"
       fac "case off of None \<Rightarrow> PyInt 0 | Some v \<Rightarrow> v" "dtype rec"]
    by simp
qed

lemma DecimateRecording_init_success:
  assumes "DecimateRecording_init rec fac off = Inr (dec, rec')"
  shows "rec' = rec\<lparr>recording_segments :=
                        map (\<lambda>s. s\<lparr>time_vector := None\<rparr>) (recording_segments rec)\<rparr>
         \<and> map parent_segment (dec_recording_segments dec)
             = map (\<lambda>s. s\<lparr>time_vector := None\<rparr>) (recording_segments rec)"
proof -
  have good: "isinstance_int fac" "0 < int_of_pyval fac"
      "isinstance_int (case off of None \<Rightarrow> PyInt 0 | Some v \<Rightarrow> v)"
  proof -
    have "\<not> (\<not> isinstance_int fac \<or> int_of_pyval fac \<le> 0
       \<or> \<not> isinstance_int (case off of None \<Rightarrow> PyInt 0 | Some v \<Rightarrow> v))"
      using DecimateRecording_init_rejects[of fac off rec] assms by auto
    then show "isinstance_int fac" "0 < int_of_pyval fac"
      "isinstance_int (case off of None \<Rightarrow> PyInt 0 | Some v \<Rightarrow> v)" by auto
  qed
  from assms obtain rr ps cs where
    a: "add_decimate_segments (recording_segments rec) rr (sampling_frequency rec)
          fac (case off of None \<Rightarrow> PyInt 0 | Some v \<Rightarrow> v) (dtype rec) = (ps, Inr cs)"
    and r: "rec' = rec\<lparr>recording_segments := ps\<rparr>" "dec_recording_segments dec = cs"
    unfolding DecimateRecording_init_passes[OF good]
    by (auto split: sum.splits prod.splits)
  from add_decimate_segments_success[OF a] r show ?thesis by simp
qed

text \<open>
  C9, as amended.  \<open>DecimateRecording.__init__\<close> raises \<open>ValueError\<close> exactly when
  \<open>decimation_factor\<close> is not an int, or is not positive, or \<open>decimation_offset\<close> is not an
  int.  The sign of \<open>decimation_offset\<close> is never checked: with a valid factor a negative
  int offset never raises \<open>ValueError\<close>, and it is accepted without any error exactly when
  the float divisions do not fail, that is when the factor is not too large for a
  float and, if some parent segment has a start time, the offset is not too large for a
  float and the sampling frequency is not zero.
\<close>

theorem DecimateRecording_init_ValueError_iff:
  "((\<exists>r. DecimateRecording_init rec fac off = Inl (ValueError, r))
      \<longleftrightarrow> \<not> isinstance_int fac \<or> int_of_pyval fac \<le> 0
          \<or> \<not> isinstance_int (case off of None \<Rightarrow> PyInt 0 | Some v \<Rightarrow> v))
   \<and> (isinstance_int fac \<and> 0 < int_of_pyval fac \<and> d < 0
      \<longrightarrow> (\<forall>r. DecimateRecording_init rec fac (Some (PyInt d)) \<noteq> Inl (ValueError, r))
        \<and> (\<not> isl (DecimateRecording_init rec fac (Some (PyInt d)))
             \<longleftrightarrow> \<not> int_too_large_for_float (int_of_pyval fac)
                 \<and> (\<forall>seg \<in> set (recording_segments rec). t_start seg \<noteq> None \<longrightarrow>
                       \<not> int_too_large_for_float d \<and> sampling_frequency rec \<noteq> 0)))"
proof -
  let ?bad = "\<not> isinstance_int fac \<or> int_of_pyval fac \<le> 0
          \<or> \<not> isinstance_int (case off of None \<Rightarrow> PyInt 0 | Some v \<Rightarrow> v)"
  have a: "\<exists>r. DecimateRecording_init rec fac off = Inl (ValueError, r)" if ?bad
    using DecimateRecording_init_rejects[OF that] by blast
  have b: "\<not> (\<exists>r. DecimateRecording_init rec fac off = Inl (ValueError, r))" if "\<not> ?bad"
    using that DecimateRecording_init_no_ValueError[of fac off rec] by auto
  have c: "\<forall>r. DecimateRecording_init rec fac (Some (PyInt d)) \<noteq> Inl (ValueError, r)"
    if "isinstance_int fac \<and> 0 < int_of_pyval fac"
    using that DecimateRecording_init_no_ValueError[of fac "Some (PyInt d)" rec] by simp
  have e: "\<not> isl (DecimateRecording_init rec fac (Some (PyInt d)))
             \<longleftrightarrow> \<not> int_too_large_for_float (int_of_pyval fac)
                 \<and> (\<forall>seg \<in> set (recording_segments rec). t_start seg \<noteq> None \<longrightarrow>
                       \<not> int_too_large_for_float d \<and> sampling_frequency rec \<noteq> 0)"
    if "isinstance_int fac \<and> 0 < int_of_pyval fac"
    using that DecimateRecording_init_accepted_iff[of fac "Some (PyInt d)" rec] by simp
  from a b c e show ?thesis by (cases ?bad) auto
qed

theorem DecimateRecording_init_ValueError_iff_witness:
  "\<not> isl (DecimateRecording_init example_recording (PyInt 2) (Some (PyInt (- 3))))
   \<and> (\<exists>r. DecimateRecording_init example_recording (PyInt 0) None = Inl (ValueError, r))
   \<and> (\<exists>r. DecimateRecording_init example_recording (PyFloat 2) None = Inl (ValueError, r))
   \<and> (\<exists>r. DecimateRecording_init example_recording (PyInt 2) (Some (PyStr ''1''))
             = Inl (ValueError, r))"
proof -
  have small: "\<not> int_too_large_for_float 2"
    by (simp add: int_too_large_for_float_def)
  have nostart: "\<forall>seg \<in> set (recording_segments example_recording). t_start seg = None"
    by (simp add: example_defs)
  have "\<not> isl (DecimateRecording_init example_recording (PyInt 2) (Some (PyInt (- 3))))"
    using DecimateRecording_init_ValueError_iff[of example_recording "PyInt 2" None "- 3"]
      small nostart by simp
  moreover have "\<exists>r. DecimateRecording_init example_recording (PyInt 0) None = Inl (ValueError, r)"
    using DecimateRecording_init_ValueError_iff[of example_recording "PyInt 0" None 0] by simp
  moreover have "\<exists>r. DecimateRecording_init example_recording (PyFloat 2) None = Inl (ValueError, r)"
    using DecimateRecording_init_ValueError_iff[of example_recording "PyFloat 2" None 0] by simp
  moreover have "\<exists>r. DecimateRecording_init example_recording (PyInt 2) (Some (PyStr ''1''))
             = Inl (ValueError, r)"
    using DecimateRecording_init_ValueError_iff[of example_recording "PyInt 2" "Some (PyStr ''1'')" 0]
    by simp
  ultimately show ?thesis by blast
qed

text \<open>
  A negative int offset is not always accepted without error: an offset of \<open>- 2 ^ 1024\<close> on
  a recording whose segments have a start time raises \<open>OverflowError\<close> at the first
  segment, whose time vector is cleared by then.
\<close>

theorem DecimateRecording_init_overflow_counterexample:
  "isinstance_int (PyInt 2) \<and> 0 < int_of_pyval (PyInt 2) \<and> - (2 ^ 1024) < (0::int)
   \<and> DecimateRecording_init example_started (PyInt 2) (Some (PyInt (- (2 ^ 1024))))
       = Inl (OverflowError,
              example_started\<lparr>recording_segments :=
                 [example_parent\<lparr>t_start := Some 0, time_vector := None\<rparr>,
                  example_parent\<lparr>t_start := Some 1\<rparr>]\<rparr>)"
  by (simp add: DecimateRecording_init_def example_started_def Let_def float_truediv_int_def
        int_truediv_float_def int_too_large_for_float_def DecimateRecordingSegment_init_def)

text \<open>
  C10.  A successful construction leaves every segment of the parent recording with
  \<open>time_vector = None\<close>, the other attributes as they were; the new recording's segments
  refer to these parent segments.  The parent recording differs from what it was exactly
  when one of its segments had a time vector, so construction does not leave the parent
  unchanged in general.
\<close>

theorem DecimateRecording_init_mutates_parent:
  "(DecimateRecording_init rec fac off = Inr (dec, rec') \<longrightarrow>
      recording_segments rec' = map (\<lambda>s. s\<lparr>time_vector := None\<rparr>) (recording_segments rec)
      \<and> (\<forall>s \<in> set (recording_segments rec'). time_vector s = None)
      \<and> map parent_segment (dec_recording_segments dec) = recording_segments rec'
      \<and> (rec' \<noteq> rec \<longleftrightarrow> (\<exists>s \<in> set (recording_segments rec). time_vector s \<noteq> None)))
   \<and> \<not> (\<forall>r fac' off' dec' r'. DecimateRecording_init (r :: 'a recording) fac' off' = Inr (dec', r')
           \<longrightarrow> r' = r)"
proof (intro conjI impI)
  assume ok: "DecimateRecording_init rec fac off = Inr (dec, rec')"
  from DecimateRecording_init_success[OF ok]
  have r: "rec' = rec\<lparr>recording_segments :=
                        map (\<lambda>s. s\<lparr>time_vector := None\<rparr>) (recording_segments rec)\<rparr>"
    and c: "map parent_segment (dec_recording_segments dec)
             = map (\<lambda>s. s\<lparr>time_vector := None\<rparr>) (recording_segments rec)"
    by auto
  show "recording_segments rec' = map (\<lambda>s. s\<lparr>time_vector := None\<rparr>) (recording_segments rec)"
    using r by simp
  then show "\<forall>s \<in> set (recording_segments rec'). time_vector s = None" by auto
  show "map parent_segment (dec_recording_segments dec) = recording_segments rec'"
    using r c by simp
  have "rec' = rec \<longleftrightarrow> map (\<lambda>s. s\<lparr>time_vector := None\<rparr>) (recording_segments rec) = recording_segments rec"
    unfolding r by (cases rec) auto
  then show "rec' \<noteq> rec \<longleftrightarrow> (\<exists>s \<in> set (recording_segments rec). time_vector s \<noteq> None)"
    using drop_time_vectors_id[of "recording_segments rec"] by simp
next
  let ?seg = "\<lparr> traces = [], num_channels = 0, time_vector = Some [], t_start = None \<rparr>
                :: 'a recording_segment"
  let ?r = "\<lparr> sampling_frequency = 1, dtype = (\<lambda>x. x), recording_segments = [?seg] \<rparr>
                :: 'a recording"
  have "\<not> isl (DecimateRecording_init ?r (PyInt 1) None)"
    using DecimateRecording_init_accepted_iff[of "PyInt 1" None ?r]
    by (simp add: int_too_large_for_float_def)
  then obtain dec' r' where ok: "DecimateRecording_init ?r (PyInt 1) None = Inr (dec', r')"
    by (cases "DecimateRecording_init ?r (PyInt 1) None") auto
  from DecimateRecording_init_success[OF ok] have "r' \<noteq> ?r" by simp
  with ok show "\<not> (\<forall>r fac' off' dec' r'. DecimateRecording_init (r :: 'a recording) fac' off' = Inr (dec', r')
           \<longrightarrow> r' = r)"
    by blast
qed

theorem DecimateRecording_init_mutates_parent_witness:
  "\<exists>dec rec'. DecimateRecording_init example_recording (PyInt 2) None = Inr (dec, rec')
      \<and> rec' \<noteq> example_recording
      \<and> map time_vector (recording_segments rec') = [None]
      \<and> map time_vector (recording_segments example_recording) \<noteq> [None]"
proof -
  have "\<not> isl (DecimateRecording_init example_recording (PyInt 2) None)"
    using DecimateRecording_init_accepted_iff[of "PyInt 2" None example_recording]
    by (simp add: int_too_large_for_float_def example_defs)
  then obtain dec rec' where ok:
    "DecimateRecording_init example_recording (PyInt 2) None = Inr (dec, rec')"
    by (cases "DecimateRecording_init example_recording (PyInt 2) None") auto
  have tv: "\<exists>s \<in> set (recording_segments example_recording). time_vector s \<noteq> None"
    by (simp add: example_defs)
  have segs: "length (recording_segments example_recording) = 1"
    by (simp add: example_defs)
  have before: "map time_vector (recording_segments example_recording) \<noteq> [None]"
    by (simp add: example_defs)
  note inst = DecimateRecording_init_mutates_parent[of example_recording "PyInt 2" None dec rec']
  note post = mp[OF conjunct1[OF inst] ok]
  have "rec' \<noteq> example_recording"
    using conjunct2[OF conjunct2[OF conjunct2[OF post]]] tv by simp
  moreover have "\<forall>s \<in> set (recording_segments rec'). time_vector s = None"
    using conjunct1[OF conjunct2[OF post]] .
  moreover have "length (recording_segments rec') = 1"
    using conjunct1[OF post] segs by simp
  ultimately have changed: "rec' \<noteq> example_recording"
    and after: "map time_vector (recording_segments rec') = [None]"
    by (cases "recording_segments rec'"; simp)+
  show ?thesis
  proof (intro exI conjI)
    show "DecimateRecording_init example_recording (PyInt 2) None = Inr (dec, rec')"
      by (rule ok)
    show "rec' \<noteq> example_recording" by (rule changed)
    show "map time_vector (recording_segments rec') = [None]" by (rule after)
    show "map time_vector (recording_segments example_recording) \<noteq> [None]" by (rule before)
  qed
qed

subsection \<open>Negative offsets\<close>

text \<open>
  C7.  \<open>get_traces(start_frame, end_frame, channel_indices)\<close> is to return
  \<open>end_frame - start_frame\<close> frames, the \<open>i\<close>-th being the parent's frame at index
  \<open>d + (start_frame + i) * f\<close>.  The code breaks this for a negative offset, which the
  constructor lets through.  Evaluated at \<open>decimation_factor = 2\<close> and
  \<open>decimation_offset = -1\<close> on a recording of one segment of ten frames: the construction
  succeeds, \<open>get_num_samples()\<close> is 6, and both \<open>get_traces(0, 6, None)\<close> and
  \<open>get_traces(None, None, None)\<close> return one frame, the parent's last; the slice
  \<open>parent_traces[-1::2]\<close> of the docstring has that one frame as well.
\<close>

theorem DecimateRecording_negative_offset_frames:
  "DecimateRecording_init example_recording (PyInt 2) (Some (PyInt (- 1)))
     = Inr (\<lparr> orig_samp_freq = 30000, decimation_factor = 2, decimation_offset = - 1,
              dec_sampling_frequency = 15000, dec_dtype = dtype example_recording,
              dec_recording_segments =
                [\<lparr> seg_sampling_frequency = 15000, seg_t_start = None,
                   parent_segment = example_parent\<lparr>time_vector := None\<rparr>,
                   seg_decimation_factor = 2, seg_decimation_offset = - 1,
                   seg_dtype = dtype example_recording \<rparr>],
              kwargs_decimation_factor = PyInt 2, kwargs_decimation_offset = PyInt (- 1) \<rparr>,
            example_recording\<lparr>recording_segments := [example_parent\<lparr>time_vector := None\<rparr>]\<rparr>)
   \<and> get_num_samples \<lparr> seg_sampling_frequency = 15000, seg_t_start = None,
                   parent_segment = example_parent\<lparr>time_vector := None\<rparr>,
                   seg_decimation_factor = 2, seg_decimation_offset = - 1,
                   seg_dtype = dtype example_recording \<rparr> = Inr 6
   \<and> get_traces \<lparr> seg_sampling_frequency = 15000, seg_t_start = None,
                   parent_segment = example_parent\<lparr>time_vector := None\<rparr>,
                   seg_decimation_factor = 2, seg_decimation_offset = - 1,
                   seg_dtype = dtype example_recording \<rparr> (Some 0) (Some 6) None
       = Inr [[9, 109]]
   \<and> get_traces \<lparr> seg_sampling_frequency = 15000, seg_t_start = None,
                   parent_segment = example_parent\<lparr>time_vector := None\<rparr>,
                   seg_decimation_factor = 2, seg_decimation_offset = - 1,
                   seg_dtype = dtype example_recording \<rparr> None None None
       = Inr [[9, 109]]
   \<and> py_slice (traces example_parent) (Some (- 1)) None (Some 2) = Inr [[9, 109]]"
proof (intro conjI)
  show "DecimateRecording_init example_recording (PyInt 2) (Some (PyInt (- 1)))
     = Inr (\<lparr> orig_samp_freq = 30000, decimation_factor = 2, decimation_offset = - 1,
              dec_sampling_frequency = 15000, dec_dtype = dtype example_recording,
              dec_recording_segments =
                [\<lparr> seg_sampling_frequency = 15000, seg_t_start = None,
                   parent_segment = example_parent\<lparr>time_vector := None\<rparr>,
                   seg_decimation_factor = 2, seg_decimation_offset = - 1,
                   seg_dtype = dtype example_recording \<rparr>],
              kwargs_decimation_factor = PyInt 2, kwargs_decimation_offset = PyInt (- 1) \<rparr>,
            example_recording\<lparr>recording_segments := [example_parent\<lparr>time_vector := None\<rparr>]\<rparr>)"
    by (simp add: DecimateRecording_init_def example_recording_def Let_def float_truediv_int_def
        int_too_large_for_float_def DecimateRecordingSegment_init_def example_parent_def)
qed (simp_all add: get_traces_def get_num_samples_def seg_get_traces_def seg_get_num_samples_def
        py_slice_def py_slice_indices_def py_range_def py_range_len_def select_channels_def
        channels_valid_def select_frame_def example_parent_def example_recording_def Let_def)

theorem DecimateRecording_negative_offset_frames_witness:
  "\<not> isl (DecimateRecording_init example_recording (PyInt 2) (Some (PyInt (- 1))))
   \<and> map get_num_samples
       (dec_recording_segments
          (fst (projr (DecimateRecording_init example_recording (PyInt 2) (Some (PyInt (- 1)))))))
       = [Inr 6]
   \<and> map (\<lambda>seg. get_traces seg (Some 0) (Some 6) None)
       (dec_recording_segments
          (fst (projr (DecimateRecording_init example_recording (PyInt 2) (Some (PyInt (- 1)))))))
       = [Inr [[9, 109]]]"
  using DecimateRecording_negative_offset_frames by simp

end
